theory Spec2Isabelle
  imports Main
begin

section \<open>JavaScript values\<close>

text \<open>
  The attack activity of \<^verbatim>\<open>src/module/data/activity/attack-data.mjs\<close> reads values whose
  dynamic type the file does not fix (an item's magical bonus, a die denomination, a
  proficiency term). They are kept as tagged JavaScript values, with the language's
  truthiness written out: \<^verbatim>\<open>undefined\<close>, \<^verbatim>\<open>null\<close>, \<^verbatim>\<open>false\<close>, \<^verbatim>\<open>0\<close> and the empty
  string are falsy. Numbers are the integers the schema's integer fields hold.
\<close>

datatype jsval = Undefined | Null | JBool bool | JNum int | JStr string

fun truthy :: "jsval \<Rightarrow> bool" where
  "truthy Undefined = False"
| "truthy Null = False"
| "truthy (JBool b) = b"
| "truthy (JNum n) = (n \<noteq> 0)"
| "truthy (JStr s) = (s \<noteq> [])"

text \<open>
  Numbers that take part in a comparison with \<^verbatim>\<open>Infinity\<close> or \<^verbatim>\<open>-Infinity\<close>
  (\<^verbatim>\<open>x ?? Infinity\<close>, \<^verbatim>\<open>x ?? -Infinity\<close>, \<^verbatim>\<open>Math.min\<close>, \<^verbatim>\<open><\<close>, \<^verbatim>\<open>>\<close>).
\<close>

datatype jsnumber = NegInfinity | Finite int | Infinity

instantiation jsnumber :: linorder
begin

fun less_eq_jsnumber :: "jsnumber \<Rightarrow> jsnumber \<Rightarrow> bool" where
  "less_eq_jsnumber NegInfinity y = True"
| "less_eq_jsnumber (Finite a) NegInfinity = False"
| "less_eq_jsnumber (Finite a) (Finite b) = (a \<le> b)"
| "less_eq_jsnumber (Finite a) Infinity = True"
| "less_eq_jsnumber Infinity NegInfinity = False"
| "less_eq_jsnumber Infinity (Finite b) = False"
| "less_eq_jsnumber Infinity Infinity = True"

fun less_jsnumber :: "jsnumber \<Rightarrow> jsnumber \<Rightarrow> bool" where
  "less_jsnumber NegInfinity NegInfinity = False"
| "less_jsnumber NegInfinity (Finite b) = True"
| "less_jsnumber NegInfinity Infinity = True"
| "less_jsnumber (Finite a) NegInfinity = False"
| "less_jsnumber (Finite a) (Finite b) = (a < b)"
| "less_jsnumber (Finite a) Infinity = True"
| "less_jsnumber Infinity y = False"

instance
proof
  fix x y z :: jsnumber
  show "(x < y) = (x \<le> y \<and> \<not> y \<le> x)"
    by (cases x; cases y) auto
  show "x \<le> x"
    by (cases x) auto
  show "x \<le> y \<Longrightarrow> y \<le> z \<Longrightarrow> x \<le> z"
    by (cases x; cases y; cases z) auto
  show "x \<le> y \<Longrightarrow> y \<le> x \<Longrightarrow> x = y"
    by (cases x; cases y) auto
  show "x \<le> y \<or> y \<le> x"
    by (cases x; cases y) auto
qed

end

text \<open>\<^verbatim>\<open>x ?? Infinity\<close> and \<^verbatim>\<open>x ?? -Infinity\<close> for an optional integer \<open>x\<close>.\<close>

fun orInfinity :: "int option \<Rightarrow> jsnumber" where
  "orInfinity None = Infinity"
| "orInfinity (Some n) = Finite n"

fun orNegInfinity :: "int option \<Rightarrow> jsnumber" where
  "orNegInfinity None = NegInfinity"
| "orNegInfinity (Some n) = Finite n"

text \<open>
  A JavaScript \<^verbatim>\<open>Set\<close> of strings iterates in insertion order and ignores the insertion
  of an element it already holds. It is a list without duplicates, oldest element first;
  \<^verbatim>\<open>new Set(xs)\<close> inserts the elements of \<open>xs\<close> from left to right, \<^verbatim>\<open>size\<close> is the
  length and \<^verbatim>\<open>first()\<close> the head.
\<close>

definition setAdd :: "string list \<Rightarrow> string \<Rightarrow> string list" where
  "setAdd s x = (if x \<in> set s then s else s @ [x])"

definition newSet :: "string list \<Rightarrow> string list" where
  "newSet xs = foldl setAdd [] xs"

section \<open>The data model\<close>

text \<open>
  The kinds of actor, from the \<^verbatim>\<open>config\<close> table of \<^verbatim>\<open>src/module/data/actor/_module.mjs\<close>.
\<close>

datatype actor_kind = character | group | npc | vehicle

text \<open>
  What the attack activity reads of its actor. A missing link of an optional chain and a
  missing key give the same \<^verbatim>\<open>undefined\<close>, so each chain is one optional value:
  \<^item> \<open>actor_abilities k\<close> is \<^verbatim>\<open>actor.system.abilities[k]?.mod\<close>;
  \<^item> \<open>actor_spellcasting\<close> is \<^verbatim>\<open>actor.system.attributes?.spellcasting\<close>;
  \<^item> \<open>actor_spellcastingClasses\<close> lists \<^verbatim>\<open>c.spellcasting.ability\<close> for the values \<open>c\<close> of
    \<^verbatim>\<open>actor.spellcastingClasses ?? {}\<close>, in the object's order;
  \<^item> \<open>actor_bonuses code\<close> is \<^verbatim>\<open>actor.system.bonuses?.[code]?.attack\<close>;
  \<^item> \<open>actor_meleeCriticalDamageDice\<close> is the flag
    \<^verbatim>\<open>getFlag("dnd5e", "meleeCriticalDamageDice")\<close>, an integer when set.
\<close>

record actor =
  actor_kind :: actor_kind
  actor_abilities :: "string \<Rightarrow> int option"
  actor_spellcasting :: "string option"
  actor_spellcastingClasses :: "string list"
  actor_bonuses :: "string \<Rightarrow> string option"
  actor_meleeCriticalDamageDice :: "int option"

text \<open>
  One damage part (\<^verbatim>\<open>DamageData\<close>): the fields this file reads or writes. \<open>dmg_base\<close> is the
  ad-hoc \<^verbatim>\<open>base\<close> property, absent (falsy) until it is set. \<^verbatim>\<open>clone()\<close> gives an
  independent copy; values here are never shared, so a clone is the value itself.
\<close>

record damage_data =
  dmg_number :: jsval
  dmg_denomination :: jsval
  dmg_types :: "string list"
  dmg_bonus :: string
  dmg_base :: bool

text \<open>
  What the attack activity reads of \<^verbatim>\<open>this.item\<close>: the item's type and, of \<^verbatim>\<open>item.system\<close>,
  the optional set of available abilities, the optional critical threshold, the attack
  type and classification, the proficiency (\<^verbatim>\<open>prof?.hasProficiency\<close>, \<^verbatim>\<open>prof.term\<close>), the
  magical bonus and its availability, the versatile flag and the two damage definitions
  (\<^verbatim>\<open>damage.base\<close> exists or not, as \<^verbatim>\<open>safePropertyExists\<close> tests it).
\<close>

record proficiency =
  prof_hasProficiency :: bool
  prof_term :: jsval

record item =
  item_type :: string
  item_availableAbilities :: "string list option"
  item_criticalThreshold :: "int option"
  item_attackType :: "string option"
  item_attackClassification :: "string option"
  item_prof :: "proficiency option"
  item_magicalBonus :: jsval
  item_magicAvailable :: bool
  item_isVersatile :: bool
  item_damage_base :: "damage_data option"
  item_damage_versatile :: damage_data

text \<open>
  The attack activity: the schema fields of \<^verbatim>\<open>defineSchema\<close> (a nested field
  \<^verbatim>\<open>attack.type.value\<close> is the record field \<open>attack_type_value\<close>), the computed \<^verbatim>\<open>labels\<close>,
  the owning item and the actor if there is one. \<open>inherited\<close> stands for the state of
  \<^verbatim>\<open>BaseActivityData\<close>, which this file never reads or writes itself.
\<close>

type_synonym labels = "string \<Rightarrow> string option"

record 'b activity =
  inherited :: 'b
  attack_ability :: string
  attack_bonus :: string
  attack_critical_threshold :: "int option"
  attack_flat :: bool
  attack_type_value :: string
  attack_type_classification :: string
  damage_critical_bonus :: string
  damage_includeBase :: bool
  damage_parts :: "damage_data list"
  labels :: labels
  item :: item
  actor :: "actor option"

text \<open>
  The defaults \<^verbatim>\<open>CONFIG.DND5E.defaultAbilities\<close> are configuration outside this file; they
  are a parameter.
\<close>

record defaultAbilities =
  meleeAttack :: string
  rangedAttack :: string

section \<open>Properties of the attack activity\<close>

text \<open>\<^verbatim>\<open>get actionType\<close>, lines 72--76.\<close>

definition actionType :: "'b activity \<Rightarrow> string" where
  "actionType a =
     (if attack_type_value a = ''ranged'' then ''r'' else ''m'') @
     (if attack_type_classification a = ''spell'' then ''sak'' else ''wak'')"

text \<open>
  \<^verbatim>\<open>get criticalThreshold\<close>, lines 109--118. \<^verbatim>\<open>ammoThreshold\<close> is declared and never
  assigned, so it is \<^verbatim>\<open>undefined\<close>.
\<close>

definition criticalThreshold :: "'b activity \<Rightarrow> jsnumber" where
  "criticalThreshold a =
     (let ammoThreshold = None;
          threshold = min (orInfinity (attack_critical_threshold a))
                        (min (orInfinity (item_criticalThreshold (item a)))
                             (orInfinity ammoThreshold))
      in if threshold < Infinity then threshold else Finite 20)"

text \<open>
  \<^verbatim>\<open>get availableAbilities\<close>, lines 85--101. A \<^verbatim>\<open>Set\<close> object is truthy even when empty,
  so the item's set is used whenever the item has one.
\<close>

definition availableAbilities :: "defaultAbilities \<Rightarrow> 'b activity \<Rightarrow> string list" where
  "availableAbilities config a =
     (case item_availableAbilities (item a) of
        Some s \<Rightarrow> s
      | None \<Rightarrow>
          if attack_type_classification a = ''spell'' then
            newSet
              (case (case actor a of None \<Rightarrow> None | Some ac \<Rightarrow> actor_spellcasting ac) of
                 Some sc \<Rightarrow>
                   if sc \<noteq> [] then [sc]
                   else (case actor a of None \<Rightarrow> [] | Some ac \<Rightarrow> actor_spellcastingClasses ac)
               | None \<Rightarrow> (case actor a of None \<Rightarrow> [] | Some ac \<Rightarrow> actor_spellcastingClasses ac))
          else
            (let melee = meleeAttack config;
                 ranged = rangedAttack config
             in if (case actor a of None \<Rightarrow> False | Some ac \<Rightarrow> actor_kind ac = npc)
                then newSet [melee, ranged]
                else newSet [if attack_type_value a = ''melee'' then melee else ranged]))"

text \<open>
  \<^verbatim>\<open>get ability\<close>, lines 59--68. The result is \<open>None\<close> for \<^verbatim>\<open>null\<close>. \<open>largerAbility\<close> is the
  callback of the \<^verbatim>\<open>reduce\<close>; without an actor \<^verbatim>\<open>abilities\<close> is the empty object.
\<close>

definition largerAbility :: "(string \<Rightarrow> int option) \<Rightarrow> string \<Rightarrow> string \<Rightarrow> string" where
  "largerAbility abilities largest ab =
     (if orNegInfinity (abilities ab) > orNegInfinity (abilities largest) then ab else largest)"

definition ability :: "defaultAbilities \<Rightarrow> 'b activity \<Rightarrow> string option" where
  "ability config a =
     (let available = availableAbilities config a
      in if length available = 0 then None
         else if length available = 1 then Some (hd available)
         else
           (let abilities = (case actor a of None \<Rightarrow> (\<lambda>k. None) | Some ac \<Rightarrow> actor_abilities ac)
            in Some (foldl (largerAbility abilities) (hd available) available)))"

section \<open>Collaborators outside this file\<close>

text \<open>
  The evaluation context of a roll: the keys this file reads or writes (\<^verbatim>\<open>mod\<close>, \<^verbatim>\<open>prof\<close>,
  \<^verbatim>\<open>magicalBonus\<close>); \<open>None\<close> is an absent key.
\<close>

record rollData =
  rd_mod :: "int option"
  rd_prof :: "jsval option"
  rd_magicalBonus :: "jsval option"

text \<open>
  The attack mode of a damage roll configuration (the \<^verbatim>\<open>@typedef\<close> of lines 229--232);
  a partial configuration may have none.
\<close>

datatype attackMode = oneHanded | twoHanded | offHand | thrown

record rollConfig =
  cfg_mode :: "attackMode option"

text \<open>
  The roll that \<^verbatim>\<open>_processDamagePart\<close> returns: its context, its parts, the \<^verbatim>\<open>base\<close> flag
  and \<^verbatim>\<open>options.critical.bonusDice\<close>.
\<close>

record damageRoll =
  roll_data :: rollData
  roll_parts :: "string list"
  roll_base :: bool
  roll_critical_bonusDice :: "int option"

text \<open>
  The methods of \<^verbatim>\<open>BaseActivityData\<close> and \<^verbatim>\<open>DamageData\<close>, the \<^verbatim>\<open>Roll\<close> class and
  \<^verbatim>\<open>simplifyRollFormula\<close> are imported by the file and not part of it. They are
  parameters:
  \<^item> \<open>super_prepareData a\<close>, \<open>super_prepareFinalData a rollData\<close> and
    \<open>prepareDamageLabel a parts rollData\<close> are the activity as the inherited method leaves
    it when called on the activity \<open>a\<close>;
  \<^item> \<open>super_processDamagePart a damage rollConfig rollData\<close> is the roll that the inherited
    \<^verbatim>\<open>_processDamagePart\<close> returns;
  \<^item> \<open>getRollData a d\<close> is \<^verbatim>\<open>this.getRollData({deterministic: d})\<close>;
  \<^item> \<open>dmg_formula p\<close> is the getter \<^verbatim>\<open>p.formula\<close> and \<open>steppedDenomination p\<close> the method
    \<^verbatim>\<open>p.steppedDenomination()\<close> of a damage part;
  \<^item> \<open>rollFormula f d\<close> is \<^verbatim>\<open>new Roll(f, d).formula\<close>;
  \<^item> \<open>simplifyRollFormula f d\<close> is \<^verbatim>\<open>simplifyRollFormula(f, {deterministic: d})\<close>.
\<close>

record 'b collaborators =
  getRollData :: "'b activity \<Rightarrow> bool \<Rightarrow> rollData"
  dmg_formula :: "damage_data \<Rightarrow> string"
  steppedDenomination :: "damage_data \<Rightarrow> jsval"
  super_prepareData :: "'b activity \<Rightarrow> 'b activity"
  super_prepareFinalData :: "'b activity \<Rightarrow> rollData \<Rightarrow> 'b activity"
  prepareDamageLabel :: "'b activity \<Rightarrow> damage_data list \<Rightarrow> rollData \<Rightarrow> 'b activity"
  super_processDamagePart :: "'b activity \<Rightarrow> damage_data \<Rightarrow> rollConfig \<Rightarrow> rollData \<Rightarrow> damageRoll"
  rollFormula :: "string \<Rightarrow> rollData \<Rightarrow> string"
  simplifyRollFormula :: "string \<Rightarrow> bool \<Rightarrow> string"

section \<open>Data preparation\<close>

text \<open>
  \<^verbatim>\<open>prepareData\<close>, lines 161--166. \<^verbatim>\<open>x ||= y\<close> assigns \<open>y\<close> when \<open>x\<close> is falsy, that is,
  for a string, empty.
\<close>

definition prepareData :: "'b collaborators \<Rightarrow> 'b activity \<Rightarrow> 'b activity" where
  "prepareData ext a =
     (let a = super_prepareData ext a;
          a = (if attack_type_value a \<noteq> [] then a
               else a\<lparr>attack_type_value :=
                      (case item_attackType (item a) of Some t \<Rightarrow> t | None \<Rightarrow> [])\<rparr>);
          a = (if attack_type_classification a \<noteq> [] then a
               else a\<lparr>attack_type_classification :=
                      (case item_attackClassification (item a) of Some c \<Rightarrow> c | None \<Rightarrow> [])\<rparr>)
      in a)"

text \<open>
  The two fill-if-empty assignments of \<^verbatim>\<open>prepareData\<close> as one update of the state that
  the inherited phase leaves.
\<close>

definition fillAttackType :: "'b activity \<Rightarrow> 'b activity" where
  "fillAttackType y =
     y\<lparr>attack_type_value :=
         (if attack_type_value y \<noteq> [] then attack_type_value y
          else (case item_attackType (item y) of Some t \<Rightarrow> t | None \<Rightarrow> [])),
       attack_type_classification :=
         (if attack_type_classification y \<noteq> [] then attack_type_classification y
          else (case item_attackClassification (item y) of Some c \<Rightarrow> c | None \<Rightarrow> []))\<rparr>"

section \<open>The attack roll\<close>

text \<open>
  \<^verbatim>\<open>getAttackData\<close>, lines 198--225. The parts are strings, and the item's magical bonus
  as the item holds it; \<^verbatim>\<open>parts.push(x)\<close> appends. The result is the pair of \<^verbatim>\<open>data\<close> and
  \<^verbatim>\<open>parts\<close>.
\<close>

definition getAttackData :: "'b collaborators \<Rightarrow> 'b activity \<Rightarrow> rollData \<times> jsval list" where
  "getAttackData ext a =
     (let data = getRollData ext a False;
          parts = [];
          itm = item a;
          (data, parts) =
            (case actor a of
               None \<Rightarrow> (data, parts)
             | Some ac \<Rightarrow>
                 if attack_flat a then (data, parts)
                 else
                   (let parts = (if attack_ability a \<noteq> ''none''
                                 then parts @ [JStr ''@mod''] else parts);
                        (data, parts) =
                          (case item_prof itm of
                             None \<Rightarrow> (data, parts)
                           | Some p \<Rightarrow>
                               if prof_hasProficiency p
                               then (data\<lparr>rd_prof := Some (prof_term p)\<rparr>, parts @ [JStr ''@prof''])
                               else (data, parts));
                        actorBonus = actor_bonuses ac (actionType a);
                        parts = (case actorBonus of
                                   None \<Rightarrow> parts
                                 | Some b \<Rightarrow> if b \<noteq> [] then parts @ [JStr b] else parts)
                    in (data, parts)));
          parts = (if attack_bonus a \<noteq> [] then parts @ [JStr (attack_bonus a)] else parts);
          parts = (if truthy (item_magicalBonus itm) \<and> item_magicAvailable itm \<and> \<not> attack_flat a
                   then parts @ [item_magicalBonus itm] else parts)
      in (data, parts))"

text \<open>
  \<^verbatim>\<open>parts.join("+")\<close>: the elements as strings, \<^verbatim>\<open>undefined\<close> and \<^verbatim>\<open>null\<close> as the empty
  string, with the separator between them. A number is printed in plain decimal digits,
  as JavaScript prints an integer below \<open>10\<^sup>2\<^sup>1\<close> in magnitude; the bonuses that reach a
  formula are far below that, and larger numbers (printed in exponent form) are outside
  the model.
\<close>

fun digitsOf :: "nat \<Rightarrow> string" where
  "digitsOf n =
     (if n < 10 then [''0123456789'' ! n]
      else digitsOf (n div 10) @ [''0123456789'' ! (n mod 10)])"

declare digitsOf.simps [simp del]

fun joinItem :: "jsval \<Rightarrow> string" where
  "joinItem Undefined = []"
| "joinItem Null = []"
| "joinItem (JBool b) = (if b then ''true'' else ''false'')"
| "joinItem (JNum n) = (if n < 0 then ''-'' @ digitsOf (nat (- n)) else digitsOf (nat n))"
| "joinItem (JStr s) = s"

fun join :: "jsval list \<Rightarrow> string \<Rightarrow> string" where
  "join [] sep = []"
| "join [x] sep = joinItem x"
| "join (x # y # ys) sep = joinItem x @ sep @ join (y # ys) sep"

text \<open>\<^verbatim>\<open>s || "0"\<close> for a string, and the test \<^verbatim>\<open>/^[+-]/.test(s)\<close>.\<close>

definition orZero :: "string \<Rightarrow> string" where
  "orZero s = (if s \<noteq> [] then s else ''0'')"

fun startsWithSign :: "string \<Rightarrow> bool" where
  "startsWithSign [] = False"
| "startsWithSign (c # cs) = (c = CHR ''+'' \<or> c = CHR ''-'')"

text \<open>
  Lines 172--177 of \<^verbatim>\<open>prepareFinalData\<close>: \<^verbatim>\<open>unshift\<close> puts a copy of the item's base
  damage part, tagged as base, in front of \<^verbatim>\<open>this.damage.parts\<close>.
\<close>

definition includeBasePart :: "'b collaborators \<Rightarrow> 'b activity \<Rightarrow> 'b activity" where
  "includeBasePart ext a =
     (case item_damage_base (item a) of
        None \<Rightarrow> a
      | Some b \<Rightarrow>
          if damage_includeBase a \<and> dmg_formula ext b \<noteq> [] then
            (let basePart = b;
                 basePart = basePart\<lparr>dmg_base := True\<rparr>
             in a\<lparr>damage_parts := basePart # damage_parts a\<rparr>)
          else a)"

text \<open>
  \<^verbatim>\<open>prepareFinalData\<close>, lines 171--188. \<^verbatim>\<open>rollData ??= e\<close> evaluates \<open>e\<close> when no roll
  data was passed.
\<close>

definition prepareFinalData :: "'b collaborators \<Rightarrow> rollData option \<Rightarrow> 'b activity \<Rightarrow> 'b activity" where
  "prepareFinalData ext rollData a =
     (let a = includeBasePart ext a;
          rollData = (case rollData of Some rd \<Rightarrow> rd | None \<Rightarrow> getRollData ext a True);
          a = super_prepareFinalData ext a rollData;
          a = prepareDamageLabel ext a (damage_parts a) rollData;
          (data, parts) = getAttackData ext a;
          roll = rollFormula ext (join parts ''+'') data;
          a = a\<lparr>labels := (labels a)(''modifier'' \<mapsto> orZero (simplifyRollFormula ext roll True))\<rparr>;
          formula = orZero (simplifyRollFormula ext roll False);
          a = a\<lparr>labels := (labels a)(''toHit'' \<mapsto>
                 (if \<not> startsWithSign formula then ''+ '' @ formula else formula))\<rparr>
      in a)"

section \<open>Damage rolls\<close>

text \<open>\<^verbatim>\<open>p.includes(sub)\<close> on strings: \<open>sub\<close> occurs in \<open>p\<close> as a contiguous substring.\<close>

fun str_includes :: "string \<Rightarrow> string \<Rightarrow> bool" where
  "str_includes [] sub = (sub = [])"
| "str_includes (c # cs) sub = (take (length sub) (c # cs) = sub \<or> str_includes cs sub)"

text \<open>
  Lines 276--283 of \<^verbatim>\<open>_processDamagePart\<close>: the damage part that goes on to the inherited
  processing. \<^verbatim>\<open>x ||= y\<close> keeps a truthy \<open>x\<close>; the types are assigned.
\<close>

definition versatileDamage ::
  "'b collaborators \<Rightarrow> 'b activity \<Rightarrow> damage_data \<Rightarrow> rollConfig \<Rightarrow> damage_data" where
  "versatileDamage ext a damage rollConfig =
     (if item_isVersatile (item a) \<and> cfg_mode rollConfig = Some twoHanded then
        (let versatile = item_damage_versatile (item a);
             versatile = versatile\<lparr>dmg_base := True\<rparr>;
             versatile = (if truthy (dmg_denomination versatile) then versatile
                          else versatile\<lparr>dmg_denomination := steppedDenomination ext damage\<rparr>);
             versatile = (if truthy (dmg_number versatile) then versatile
                          else versatile\<lparr>dmg_number := dmg_number damage\<rparr>);
             versatile = versatile\<lparr>dmg_types := dmg_types damage\<rparr>
         in versatile)
      else damage)"

text \<open>
  \<^verbatim>\<open>_processDamagePart\<close>, lines 272--306. Line 273 calls the inherited method for a part
  that is not the base part and drops what it returns: the statement has no \<^verbatim>\<open>return\<close>, so
  the method goes on with line 276 for every part. \<^verbatim>\<open>roll.data.mod < 0\<close> is false for an
  absent \<^verbatim>\<open>mod\<close>; \<^verbatim>\<open>parseInt\<close> of an integer flag is the flag.
\<close>

definition processDamagePart ::
  "'b collaborators \<Rightarrow> 'b activity \<Rightarrow> damage_data \<Rightarrow> rollConfig \<Rightarrow> rollData \<Rightarrow> damageRoll" where
  "processDamagePart ext a damage rollConfig rollData =
     (let dropped = (if \<not> dmg_base damage
                     then Some (super_processDamagePart ext a damage rollConfig rollData)
                     else None);
          damage = versatileDamage ext a damage rollConfig;
          roll = super_processDamagePart ext a damage rollConfig rollData;
          roll = roll\<lparr>roll_base := True\<rparr>;
          roll =
            (if item_type (item a) = ''weapon'' then
               (let includeMod = (cfg_mode rollConfig \<noteq> Some offHand
                                  \<or> (case rd_mod (roll_data roll) of None \<Rightarrow> False | Some m \<Rightarrow> m < 0));
                    roll = (if includeMod \<and> \<not> list_ex (\<lambda>p. str_includes p ''@mod'') (roll_parts roll)
                            then roll\<lparr>roll_parts := roll_parts roll @ [''@mod'']\<rparr> else roll);
                    roll = (if truthy (item_magicalBonus (item a)) \<and> item_magicAvailable (item a)
                            then roll\<lparr>roll_parts := roll_parts roll @ [''@magicalBonus''],
                                      roll_data := (roll_data roll)\<lparr>rd_magicalBonus :=
                                                     Some (item_magicalBonus (item a))\<rparr>\<rparr>
                            else roll)
                in roll)
             else roll);
          criticalBonusDice =
            (case (case actor a of None \<Rightarrow> None | Some ac \<Rightarrow> actor_meleeCriticalDamageDice ac) of
               None \<Rightarrow> 0
             | Some d \<Rightarrow> d);
          roll = (if actionType a = ''mwak'' \<and> criticalBonusDice \<noteq> 0
                  then roll\<lparr>roll_critical_bonusDice := Some criticalBonusDice\<rparr> else roll)
      in roll)"

section \<open>Migration of legacy data\<close>

text \<open>
  A legacy source record: its type and the fields of \<^verbatim>\<open>source.system\<close> that
  \<^verbatim>\<open>transformTypeData\<close> reads, each optional chain as one optional value. A legacy damage
  part is the pair of a formula and a damage type. \<open>src_damage_parts\<close> is
  \<^verbatim>\<open>source.system.damage?.parts\<close>.
\<close>

type_synonym legacy_part = "string \<times> string"

record legacy_source =
  src_type :: string
  src_ability :: "string option"
  src_attack_bonus :: "string option"
  src_attack_flat :: "bool option"
  src_critical_threshold :: "int option"
  src_critical_damage :: "string option"
  src_actionType :: "string option"
  src_damage_parts :: "legacy_part list option"

text \<open>
  The activity data that the transformation returns: the data it was given
  (\<open>ad_given\<close>), with the \<^verbatim>\<open>attack\<close> and \<^verbatim>\<open>damage\<close> objects merged in.
\<close>

record ('b, 'd) activityData =
  ad_given :: 'b
  ad_attack_ability :: string
  ad_attack_bonus :: string
  ad_attack_critical_threshold :: "int option"
  ad_attack_flat :: bool
  ad_attack_type_value :: string
  ad_attack_type_classification :: string
  ad_damage_critical_bonus :: "string option"
  ad_damage_includeBase :: bool
  ad_damage_parts :: "'d list"

datatype js_error = TypeError

definition startsWith :: "string \<Rightarrow> string \<Rightarrow> bool" where
  "startsWith s p = (take (length p) s = p)"

definition endsWith :: "string \<Rightarrow> string \<Rightarrow> bool" where
  "endsWith s p = (length p \<le> length s \<and> drop (length s - length p) s = p)"

text \<open>
  \<^verbatim>\<open>transformTypeData\<close>, lines 125--155. The assignment of line 130 writes to the source
  record, so the result is the source record as the call leaves it, and the returned
  activity data or the \<^verbatim>\<open>TypeError\<close> of calling \<^verbatim>\<open>startsWith\<close> on an absent action type.
  \<^verbatim>\<open>transformDamagePartData\<close> belongs to \<^verbatim>\<open>BaseActivityData\<close> and is a parameter.
\<close>

definition transformTypeData ::
  "(legacy_source \<Rightarrow> legacy_part \<Rightarrow> 'd) \<Rightarrow> legacy_source \<Rightarrow> 'b
     \<Rightarrow> legacy_source \<times> (js_error + ('b, 'd) activityData)" where
  "transformTypeData transformDamagePartData source activityData =
     (let damageParts = (case src_damage_parts source of None \<Rightarrow> [] | Some ps \<Rightarrow> ps);
          (source, damageParts) =
            (case damageParts of
               [] \<Rightarrow> (source, damageParts)
             | base # rest \<Rightarrow>
                 if src_type source = ''weapon''
                 then (source\<lparr>src_damage_parts := Some [base]\<rparr>, rest)
                 else (source, damageParts))
      in (source,
          case src_actionType source of
            None \<Rightarrow> Inl TypeError
          | Some legacyActionType \<Rightarrow>
              Inr \<lparr>ad_given = activityData,
                   ad_attack_ability = (case src_ability source of None \<Rightarrow> [] | Some ab \<Rightarrow> ab),
                   ad_attack_bonus = (case src_attack_bonus source of None \<Rightarrow> [] | Some b \<Rightarrow> b),
                   ad_attack_critical_threshold = src_critical_threshold source,
                   ad_attack_flat = (case src_attack_flat source of None \<Rightarrow> False | Some f \<Rightarrow> f),
                   ad_attack_type_value =
                     (if startsWith legacyActionType ''m'' then ''melee'' else ''ranged''),
                   ad_attack_type_classification =
                     (if endsWith legacyActionType ''wak'' then ''weapon'' else ''spell''),
                   ad_damage_critical_bonus = src_critical_damage source,
                   ad_damage_includeBase = True,
                   ad_damage_parts = map (transformDamagePartData source) damageParts\<rparr>))"

section \<open>Sample data\<close>

text \<open>
  Concrete inputs on which the definitions are run: the stock default abilities, simple
  stand-ins for the collaborators (a formula is \<open>number\<close>d\<open>denomination\<close>, the stepped
  denomination is the next larger die, the inherited phases change nothing, the damage
  label lists the formulas of the parts, roll formulas are left as they are), a player
  character, a versatile magical longsword and its attack.
\<close>

definition exampleConfig :: defaultAbilities where
  "exampleConfig = \<lparr>meleeAttack = ''str'', rangedAttack = ''dex''\<rparr>"

definition exampleRollData :: rollData where
  "exampleRollData = \<lparr>rd_mod = Some 3, rd_prof = None, rd_magicalBonus = None\<rparr>"

definition exampleFormula :: "damage_data \<Rightarrow> string" where
  "exampleFormula p = joinItem (dmg_number p) @ ''d'' @ joinItem (dmg_denomination p)"

fun exampleStep :: "jsval \<Rightarrow> jsval" where
  "exampleStep (JNum n) =
     (if n = 4 then JNum 6 else if n = 6 then JNum 8 else if n = 8 then JNum 10
      else if n = 10 then JNum 12 else JNum n)"
| "exampleStep v = Null"

definition exampleCollaborators :: "unit collaborators" where
  "exampleCollaborators =
     \<lparr>getRollData = (\<lambda>a d. exampleRollData),
      dmg_formula = exampleFormula,
      steppedDenomination = (\<lambda>p. exampleStep (dmg_denomination p)),
      super_prepareData = (\<lambda>a. a),
      super_prepareFinalData = (\<lambda>a rd. a),
      prepareDamageLabel = (\<lambda>a ps rd. a\<lparr>labels := (labels a)(''damage'' \<mapsto>
        join (map (\<lambda>p. JStr (exampleFormula p)) ps) '', '')\<rparr>),
      super_processDamagePart = (\<lambda>a p c rd.
        \<lparr>roll_data = rd, roll_parts = [exampleFormula p],
         roll_base = False, roll_critical_bonusDice = None\<rparr>),
      rollFormula = (\<lambda>f d. f),
      simplifyRollFormula = (\<lambda>f d. f)\<rparr>"

definition exampleActor :: actor where
  "exampleActor =
     \<lparr>actor_kind = character,
      actor_abilities = [''str'' \<mapsto> 3, ''dex'' \<mapsto> 3, ''con'' \<mapsto> 1],
      actor_spellcasting = None,
      actor_spellcastingClasses = [],
      actor_bonuses = [''mwak'' \<mapsto> ''+1''],
      actor_meleeCriticalDamageDice = None\<rparr>"

definition exampleBase :: damage_data where
  "exampleBase =
     \<lparr>dmg_number = JNum 1, dmg_denomination = JNum 8, dmg_types = [''slashing''],
      dmg_bonus = [], dmg_base = False\<rparr>"

definition exampleVersatile :: damage_data where
  "exampleVersatile =
     \<lparr>dmg_number = Null, dmg_denomination = Null, dmg_types = [''bludgeoning''],
      dmg_bonus = [], dmg_base = False\<rparr>"

definition exampleItem :: item where
  "exampleItem =
     \<lparr>item_type = ''weapon'',
      item_availableAbilities = None,
      item_criticalThreshold = None,
      item_attackType = Some ''melee'',
      item_attackClassification = Some ''weapon'',
      item_prof = Some \<lparr>prof_hasProficiency = True, prof_term = JStr ''+2''\<rparr>,
      item_magicalBonus = JNum 1,
      item_magicAvailable = True,
      item_isVersatile = True,
      item_damage_base = Some exampleBase,
      item_damage_versatile = exampleVersatile\<rparr>"

definition exampleActivity :: "unit activity" where
  "exampleActivity =
     \<lparr>inherited = (),
      attack_ability = [],
      attack_bonus = ''+0'',
      attack_critical_threshold = Some 19,
      attack_flat = False,
      attack_type_value = ''melee'',
      attack_type_classification = ''weapon'',
      damage_critical_bonus = [],
      damage_includeBase = True,
      damage_parts = [],
      labels = Map.empty,
      item = exampleItem,
      actor = Some exampleActor\<rparr>"

text \<open>The same attack with an item that declares its own set of abilities, or no actor.\<close>

definition withAbilities :: "string list \<Rightarrow> unit activity \<Rightarrow> unit activity" where
  "withAbilities s a = a\<lparr>item := (item a)\<lparr>item_availableAbilities := Some s\<rparr>\<rparr>"

definition exampleNpc :: actor where
  "exampleNpc = exampleActor\<lparr>actor_kind := npc\<rparr>"

text \<open>A legacy weapon with two damage parts.\<close>

definition exampleLegacy :: legacy_source where
  "exampleLegacy =
     \<lparr>src_type = ''weapon'', src_ability = None, src_attack_bonus = None,
      src_attack_flat = None, src_critical_threshold = None, src_critical_damage = None,
      src_actionType = Some ''mwak'',
      src_damage_parts = Some [(''1d8'', ''slashing''), (''1d6'', ''fire'')]\<rparr>"

section \<open>Auxiliary facts\<close>

lemma jsnumber_min_simps [simp]:
  "min (Finite a) (Finite b) = Finite (min a b)"
  "min Infinity x = x"
  "min x Infinity = x"
  by (cases x; simp add: min_def)+

lemma newSet_pair: "newSet [x, y] = (if x = y then [x] else [x, y])"
  by (simp add: newSet_def setAdd_def)

section \<open>Critical threshold\<close>

text \<open>
  C6, as the code has it. The critical threshold is the minimum of the activity's and
  the item's override, an unset override counting as infinity, and the default 20 is
  returned when neither override is set, that is, when that minimum is still infinite.
  So the result is the override that is set when only one is, and the smaller one when
  both are; it is 20 when neither is set and also when the smaller of the set overrides
  is 20 itself.
\<close>

theorem criticalThreshold_minimum:
  "criticalThreshold a =
     (if attack_critical_threshold a = None \<and> item_criticalThreshold (item a) = None
      then Finite 20
      else min (orInfinity (attack_critical_threshold a))
               (orInfinity (item_criticalThreshold (item a)))) \<and>
   criticalThreshold a =
     (case (attack_critical_threshold a, item_criticalThreshold (item a)) of
        (None, None) \<Rightarrow> Finite 20
      | (Some x, None) \<Rightarrow> Finite x
      | (None, Some y) \<Rightarrow> Finite y
      | (Some x, Some y) \<Rightarrow> Finite (min x y)) \<and>
   (criticalThreshold a = Finite 20) =
     ((attack_critical_threshold a = None \<and> item_criticalThreshold (item a) = None) \<or>
      min (orInfinity (attack_critical_threshold a))
          (orInfinity (item_criticalThreshold (item a))) = Finite 20)"
  by (simp add: criticalThreshold_def split: option.splits)

text \<open>
  The statement of the specification fails in one direction: the result is 20 for an
  activity override of 20 with no item override, and for the overrides 20 and 25, although
  an override is set.
\<close>

theorem criticalThreshold_counterexample:
  "attack_critical_threshold (exampleActivity\<lparr>attack_critical_threshold := Some 20\<rparr>) = Some 20 \<and>
   item_criticalThreshold (item (exampleActivity\<lparr>attack_critical_threshold := Some 20\<rparr>)) = None \<and>
   criticalThreshold (exampleActivity\<lparr>attack_critical_threshold := Some 20\<rparr>) = Finite 20 \<and>
   criticalThreshold (exampleActivity\<lparr>attack_critical_threshold := Some 20,
       item := exampleItem\<lparr>item_criticalThreshold := Some 25\<rparr>\<rparr>) = Finite 20 \<and>
   \<not> ((criticalThreshold (exampleActivity\<lparr>attack_critical_threshold := Some 20\<rparr>) = Finite 20) =
       (attack_critical_threshold (exampleActivity\<lparr>attack_critical_threshold := Some 20\<rparr>) = None \<and>
        item_criticalThreshold (item (exampleActivity\<lparr>attack_critical_threshold := Some 20\<rparr>)) = None))"
  by (simp add: criticalThreshold_def exampleActivity_def exampleItem_def)

lemma criticalThreshold_examples:
  "criticalThreshold exampleActivity = Finite 19"
  "criticalThreshold (exampleActivity\<lparr>attack_critical_threshold := None\<rparr>) = Finite 20"
  by (simp_all add: criticalThreshold_def exampleActivity_def exampleItem_def)

section \<open>The attack roll in flat mode\<close>

text \<open>
  C1. For an attack activity with \<^verbatim>\<open>attack.flat = true\<close>, whatever the actor and the item
  are, the term list of \<^verbatim>\<open>getAttackData\<close> holds no term but the activity's own
  \<^verbatim>\<open>attack.bonus\<close>, which is there when it is not empty: the ability modifier \<^verbatim>\<open>@mod\<close>,
  the proficiency \<^verbatim>\<open>@prof\<close>, the actor's bonus for the action type and the item's magical
  bonus are not pushed, and the evaluation context is the roll data as it came.
\<close>

theorem getAttackData_flat:
  "attack_flat a \<Longrightarrow>
     getAttackData ext a =
       (getRollData ext a False, if attack_bonus a \<noteq> [] then [JStr (attack_bonus a)] else [])"
  by (cases "actor a") (simp_all add: getAttackData_def Let_def)

theorem getAttackData_flat_witness:
  "attack_flat (exampleActivity\<lparr>attack_flat := True\<rparr>) \<and>
   getAttackData exampleCollaborators (exampleActivity\<lparr>attack_flat := True\<rparr>) =
     (exampleRollData, [JStr ''+0''])"
  using getAttackData_flat [of "exampleActivity\<lparr>attack_flat := True\<rparr>" exampleCollaborators]
  by (simp add: exampleActivity_def exampleCollaborators_def)

section \<open>The derived phase\<close>

lemma prepareData_fields:
  "prepareData ext x = fillAttackType (super_prepareData ext x)"
  by (simp add: prepareData_def fillAttackType_def Let_def)

lemma fillAttackType_idempotent:
  "fillAttackType (fillAttackType y) = fillAttackType y"
  by (simp add: fillAttackType_def)

text \<open>
  C10. The derived phase is idempotent: running \<^verbatim>\<open>prepareData\<close> on its own result
  changes nothing, since the attack type and classification are filled only when empty.
  The inherited \<^verbatim>\<open>super.prepareData()\<close> runs at each call; it is taken to be idempotent
  itself and not to depend on the two fields that the attack fills.
\<close>

theorem prepareData_idempotent:
  assumes idem: "\<And>a. super_prepareData ext (super_prepareData ext a) = super_prepareData ext a"
    and frame_value: "\<And>a v. super_prepareData ext (a\<lparr>attack_type_value := v\<rparr>) =
                        (super_prepareData ext a)\<lparr>attack_type_value := v\<rparr>"
    and frame_classification: "\<And>a c. super_prepareData ext (a\<lparr>attack_type_classification := c\<rparr>) =
                        (super_prepareData ext a)\<lparr>attack_type_classification := c\<rparr>"
  shows "prepareData ext (prepareData ext x) = prepareData ext x"
proof -
  have "super_prepareData ext (fillAttackType (super_prepareData ext x)) =
        fillAttackType (super_prepareData ext x)"
    by (simp add: fillAttackType_def frame_value frame_classification idem)
  then show ?thesis
    by (simp add: prepareData_fields fillAttackType_idempotent)
qed

theorem prepareData_idempotent_witness:
  "(\<forall>a. super_prepareData exampleCollaborators (super_prepareData exampleCollaborators a) =
        super_prepareData exampleCollaborators a) \<and>
   prepareData exampleCollaborators
     (prepareData exampleCollaborators (exampleActivity\<lparr>attack_type_value := []\<rparr>)) =
   prepareData exampleCollaborators (exampleActivity\<lparr>attack_type_value := []\<rparr>) \<and>
   attack_type_value (prepareData exampleCollaborators (exampleActivity\<lparr>attack_type_value := []\<rparr>)) =
     ''melee''"
proof -
  have filled: "attack_type_value
      (prepareData exampleCollaborators (exampleActivity\<lparr>attack_type_value := []\<rparr>)) = ''melee''"
    by (simp add: prepareData_fields fillAttackType_def exampleCollaborators_def
        exampleActivity_def exampleItem_def)
  have "prepareData exampleCollaborators
     (prepareData exampleCollaborators (exampleActivity\<lparr>attack_type_value := []\<rparr>)) =
   prepareData exampleCollaborators (exampleActivity\<lparr>attack_type_value := []\<rparr>)"
    by (rule prepareData_idempotent) (simp_all add: exampleCollaborators_def)
  with filled show ?thesis by (simp add: exampleCollaborators_def)
qed

section \<open>Available abilities of an NPC\<close>

text \<open>
  C9, as the code has it. For an attack that is not a spell attack, on an item that
  declares no set of available abilities of its own, with an NPC as actor, the available
  abilities are the set of the default melee and the default ranged ability, whatever
  \<^verbatim>\<open>attack.type.value\<close> is: two elements, the melee ability first, when the two configured
  defaults differ.
\<close>

theorem availableAbilities_npc:
  "item_availableAbilities (item a) = None \<Longrightarrow>
   attack_type_classification a \<noteq> ''spell'' \<Longrightarrow>
   actor a = Some ac \<Longrightarrow> actor_kind ac = npc \<Longrightarrow>
     availableAbilities config a = newSet [meleeAttack config, rangedAttack config] \<and>
     (meleeAttack config \<noteq> rangedAttack config \<longrightarrow>
        availableAbilities config a = [meleeAttack config, rangedAttack config])"
  by (simp add: availableAbilities_def newSet_pair)

theorem availableAbilities_npc_witness:
  "item_availableAbilities (item (exampleActivity\<lparr>actor := Some exampleNpc\<rparr>)) = None \<and>
   attack_type_classification (exampleActivity\<lparr>actor := Some exampleNpc\<rparr>) \<noteq> ''spell'' \<and>
   actor_kind exampleNpc = npc \<and>
   meleeAttack exampleConfig \<noteq> rangedAttack exampleConfig \<and>
   availableAbilities exampleConfig (exampleActivity\<lparr>actor := Some exampleNpc\<rparr>) = [''str'', ''dex'']"
  using availableAbilities_npc [of "exampleActivity\<lparr>actor := Some exampleNpc\<rparr>" exampleNpc exampleConfig]
  by (simp add: exampleActivity_def exampleItem_def exampleNpc_def exampleActor_def exampleConfig_def newSet_pair)

text \<open>
  The statement of the specification fails on the item's state: an item that declares
  its own set is deferred to, so the same NPC weapon attack gets the singleton the item
  declares.
\<close>

theorem availableAbilities_npc_counterexample:
  "actor (withAbilities [''str''] (exampleActivity\<lparr>actor := Some exampleNpc\<rparr>)) = Some exampleNpc \<and>
   actor_kind exampleNpc = npc \<and>
   attack_type_classification (withAbilities [''str''] (exampleActivity\<lparr>actor := Some exampleNpc\<rparr>)) = ''weapon'' \<and>
   availableAbilities exampleConfig (withAbilities [''str''] (exampleActivity\<lparr>actor := Some exampleNpc\<rparr>)) = [''str'']"
  by (simp add: availableAbilities_def withAbilities_def exampleActivity_def exampleNpc_def exampleActor_def)

section \<open>What the final phase changes\<close>

lemma includeBasePart_damage_parts:
  "includeBasePart ext a =
     a\<lparr>damage_parts :=
         (case item_damage_base (item a) of
            None \<Rightarrow> damage_parts a
          | Some b \<Rightarrow>
              if damage_includeBase a \<and> dmg_formula ext b \<noteq> []
              then b\<lparr>dmg_base := True\<rparr> # damage_parts a
              else damage_parts a)\<rparr>"
  by (cases "item_damage_base (item a)") (simp_all add: includeBasePart_def)

lemma prepareFinalData_labels_only:
  assumes sup: "\<And>a rd. \<exists>l. super_prepareFinalData ext a rd = a\<lparr>labels := l\<rparr>"
    and lab: "\<And>a ps rd. \<exists>l. prepareDamageLabel ext a ps rd = a\<lparr>labels := l\<rparr>"
  shows "(prepareFinalData ext rollData a)\<lparr>labels := l\<rparr> = (includeBasePart ext a)\<lparr>labels := l\<rparr>"
proof -
  define b where "b = includeBasePart ext a"
  define rd where "rd = (case rollData of Some r \<Rightarrow> r | None \<Rightarrow> getRollData ext b True)"
  obtain l1 where s1: "super_prepareFinalData ext b rd = b\<lparr>labels := l1\<rparr>"
    using sup by blast
  obtain l2 where "prepareDamageLabel ext (b\<lparr>labels := l1\<rparr>) (damage_parts b) rd =
      b\<lparr>labels := l1, labels := l2\<rparr>"
    using lab by blast
  then have s2: "prepareDamageLabel ext (b\<lparr>labels := l1\<rparr>) (damage_parts b) rd = b\<lparr>labels := l2\<rparr>"
    by simp
  show ?thesis
    using s1 s2 unfolding rd_def b_def
    by (simp add: prepareFinalData_def Let_def split: prod.splits)
qed

lemma example_super_prepareFinalData:
  "\<exists>l. super_prepareFinalData exampleCollaborators a rd = a\<lparr>labels := l\<rparr>"
  by (rule exI [of _ "labels a"]) (simp add: exampleCollaborators_def)

lemma example_prepareDamageLabel:
  "\<exists>l. prepareDamageLabel exampleCollaborators a ps rd = a\<lparr>labels := l\<rparr>"
  unfolding exampleCollaborators_def by (simp, rule exI, rule refl)

lemma example_prepareFinalData:
  "damage_parts (prepareFinalData exampleCollaborators rollData a) =
     damage_parts (includeBasePart exampleCollaborators a)"
  "item (prepareFinalData exampleCollaborators rollData a) = item a"
  "damage_includeBase (prepareFinalData exampleCollaborators rollData a) = damage_includeBase a"
proof -
  note eq = prepareFinalData_labels_only [where ext = exampleCollaborators
      and rollData = rollData and a = a and l = Map.empty,
      OF example_super_prepareFinalData example_prepareDamageLabel]
  show "damage_parts (prepareFinalData exampleCollaborators rollData a) =
     damage_parts (includeBasePart exampleCollaborators a)"
    using arg_cong [OF eq, of damage_parts] by simp
  show "item (prepareFinalData exampleCollaborators rollData a) = item a"
    using arg_cong [OF eq, of item] by (simp add: includeBasePart_damage_parts)
  show "damage_includeBase (prepareFinalData exampleCollaborators rollData a) = damage_includeBase a"
    using arg_cong [OF eq, of damage_includeBase] by (simp add: includeBasePart_damage_parts)
qed

lemma digitsOf_digit: "n < 10 \<Longrightarrow> digitsOf n = [''0123456789'' ! n]"
  by (simp add: digitsOf.simps)

text \<open>
  C2, as the code has it. Provided the inherited final phase and \<^verbatim>\<open>prepareDamageLabel\<close>
  write labels only, the final phase leaves every schema field of the activity as it was,
  and the item and the actor, with one exception: when base damage is included and the
  item has a base damage part with a non-empty formula, a copy of that part, tagged as
  base, is put in front of \<^verbatim>\<open>damage.parts\<close>; otherwise \<^verbatim>\<open>damage.parts\<close> is unchanged too.
  Everything else it writes is a label.
\<close>

theorem prepareFinalData_frame:
  assumes sup: "\<And>a rd. \<exists>l. super_prepareFinalData ext a rd = a\<lparr>labels := l\<rparr>"
    and lab: "\<And>a ps rd. \<exists>l. prepareDamageLabel ext a ps rd = a\<lparr>labels := l\<rparr>"
  shows "(prepareFinalData ext rollData a)\<lparr>labels := labels a\<rparr> =
     a\<lparr>damage_parts :=
         (case item_damage_base (item a) of
            None \<Rightarrow> damage_parts a
          | Some b \<Rightarrow>
              if damage_includeBase a \<and> dmg_formula ext b \<noteq> []
              then b\<lparr>dmg_base := True\<rparr> # damage_parts a
              else damage_parts a)\<rparr>"
proof -
  have "(prepareFinalData ext rollData a)\<lparr>labels := labels a\<rparr> =
      (includeBasePart ext a)\<lparr>labels := labels a\<rparr>"
    using sup lab by (rule prepareFinalData_labels_only)
  also have "\<dots> = a\<lparr>damage_parts :=
         (case item_damage_base (item a) of
            None \<Rightarrow> damage_parts a
          | Some b \<Rightarrow>
              if damage_includeBase a \<and> dmg_formula ext b \<noteq> []
              then b\<lparr>dmg_base := True\<rparr> # damage_parts a
              else damage_parts a)\<rparr>"
    by (subst includeBasePart_damage_parts) simp
  finally show ?thesis .
qed

theorem prepareFinalData_frame_witness:
  "(prepareFinalData exampleCollaborators None exampleActivity)\<lparr>labels := labels exampleActivity\<rparr> =
     exampleActivity\<lparr>damage_parts := [exampleBase\<lparr>dmg_base := True\<rparr>]\<rparr>"
  using prepareFinalData_frame [where ext = exampleCollaborators and rollData = None
      and a = exampleActivity, OF example_super_prepareFinalData example_prepareDamageLabel]
  by (simp add: exampleActivity_def exampleItem_def exampleCollaborators_def exampleFormula_def
      exampleBase_def digitsOf_digit)

text \<open>
  The statement of the specification fails: on the sample attack, whose parts are empty,
  one final phase leaves the item's base part in \<^verbatim>\<open>damage.parts\<close>, and a second one on
  that state puts it there again.
\<close>

theorem prepareFinalData_counterexample:
  "damage_parts exampleActivity = [] \<and>
   damage_parts (prepareFinalData exampleCollaborators None exampleActivity) =
     [exampleBase\<lparr>dmg_base := True\<rparr>] \<and>
   damage_parts (prepareFinalData exampleCollaborators None
       (prepareFinalData exampleCollaborators None exampleActivity)) =
     [exampleBase\<lparr>dmg_base := True\<rparr>, exampleBase\<lparr>dmg_base := True\<rparr>]"
proof -
  have formula: "dmg_formula exampleCollaborators exampleBase \<noteq> []"
    by (simp add: exampleCollaborators_def exampleFormula_def)
  have before: "damage_parts exampleActivity = []"
    and base: "item_damage_base (item exampleActivity) = Some exampleBase"
    and incl: "damage_includeBase exampleActivity"
    by (simp_all add: exampleActivity_def exampleItem_def)
  have once: "damage_parts (prepareFinalData exampleCollaborators None exampleActivity) =
      [exampleBase\<lparr>dmg_base := True\<rparr>]"
    by (simp add: example_prepareFinalData includeBasePart_damage_parts formula before base incl)
  have twice: "damage_parts (prepareFinalData exampleCollaborators None
       (prepareFinalData exampleCollaborators None exampleActivity)) =
     [exampleBase\<lparr>dmg_base := True\<rparr>, exampleBase\<lparr>dmg_base := True\<rparr>]"
    by (simp add: example_prepareFinalData includeBasePart_damage_parts formula before base incl)
  from before once twice show ?thesis by blast
qed

section \<open>The source record of a migration\<close>

text \<open>
  C3, as the code has it. \<^verbatim>\<open>transformTypeData\<close> leaves its source record unchanged unless
  the source is a weapon with at least one legacy damage part; for such a weapon it cuts
  the legacy damage parts of the source down to the first one and changes no other
  field. A weapon with exactly one part is therefore left equal to what it was.
\<close>

theorem transformTypeData_source:
  "fst (transformTypeData f s ad) =
     (case src_damage_parts s of
        None \<Rightarrow> s
      | Some [] \<Rightarrow> s
      | Some (base # rest) \<Rightarrow>
          if src_type s = ''weapon'' then s\<lparr>src_damage_parts := Some [base]\<rparr> else s)"
  by (simp add: transformTypeData_def Let_def split: option.splits list.splits)

text \<open>
  The statement of the specification fails: the legacy weapon with the parts 1d8
  slashing and 1d6 fire comes out of the call with the first part only.
\<close>

theorem transformTypeData_counterexample:
  "src_damage_parts exampleLegacy = Some [(''1d8'', ''slashing''), (''1d6'', ''fire'')] \<and>
   src_damage_parts (fst (transformTypeData (\<lambda>s p. p) exampleLegacy ())) =
     Some [(''1d8'', ''slashing'')] \<and>
   fst (transformTypeData (\<lambda>s p. p) exampleLegacy ()) \<noteq> exampleLegacy"
  by (simp add: transformTypeData_def Let_def exampleLegacy_def)

section \<open>The base flag and the versatile substitution\<close>

text \<open>
  C4. The roll that \<^verbatim>\<open>_processDamagePart\<close> returns has \<^verbatim>\<open>base = true\<close> for every
  damage part, tagged as base or not. The specification asks for a flag that is true
  exactly when the part was tagged as base; line 273 calls the inherited method for a
  part that is not tagged and does not return its roll, so the flag is set on that
  part's roll as well.
\<close>

theorem processDamagePart_base_always:
  "roll_base (processDamagePart ext a damage rollConfig rollData) = True"
  by (simp add: processDamagePart_def Let_def)

theorem processDamagePart_base_always_witness:
  "\<not> dmg_base exampleBase \<and>
   \<not> roll_base (super_processDamagePart exampleCollaborators exampleActivity exampleBase
        \<lparr>cfg_mode = Some oneHanded\<rparr> exampleRollData) \<and>
   roll_base (processDamagePart exampleCollaborators exampleActivity exampleBase
        \<lparr>cfg_mode = Some oneHanded\<rparr> exampleRollData)"
  using processDamagePart_base_always [of exampleCollaborators exampleActivity exampleBase
      "\<lparr>cfg_mode = Some oneHanded\<rparr>" exampleRollData]
  by (simp add: exampleBase_def exampleCollaborators_def)

text \<open>
  C5, as the code has it. When the owning item is versatile and the attack mode is
  two-handed, the part that is processed in place of the base part is a copy of the
  item's versatile damage definition, tagged as base, in which a falsy denomination is
  replaced by what \<^verbatim>\<open>steppedDenomination()\<close> of the original part returns, a falsy
  number by the original part's number, and the damage types by the original part's
  types, whether the versatile definition had types or not.
\<close>

theorem versatileDamage_twoHanded:
  "dmg_base damage \<Longrightarrow>
   item_isVersatile (item a) \<Longrightarrow> cfg_mode rollConfig = Some twoHanded \<Longrightarrow>
   versatileDamage ext a damage rollConfig =
     (item_damage_versatile (item a))
       \<lparr>dmg_base := True,
        dmg_denomination :=
          (if truthy (dmg_denomination (item_damage_versatile (item a)))
           then dmg_denomination (item_damage_versatile (item a))
           else steppedDenomination ext damage),
        dmg_number :=
          (if truthy (dmg_number (item_damage_versatile (item a)))
           then dmg_number (item_damage_versatile (item a))
           else dmg_number damage),
        dmg_types := dmg_types damage\<rparr>"
  by (simp add: versatileDamage_def Let_def)

theorem versatileDamage_twoHanded_witness:
  "dmg_base (exampleBase\<lparr>dmg_base := True\<rparr>) \<and>
   item_isVersatile (item exampleActivity) \<and>
   versatileDamage exampleCollaborators exampleActivity (exampleBase\<lparr>dmg_base := True\<rparr>)
       \<lparr>cfg_mode = Some twoHanded\<rparr> =
     \<lparr>dmg_number = JNum 1, dmg_denomination = JNum 10, dmg_types = [''slashing''],
      dmg_bonus = [], dmg_base = True\<rparr>"
  using versatileDamage_twoHanded [of "exampleBase\<lparr>dmg_base := True\<rparr>" exampleActivity
      "\<lparr>cfg_mode = Some twoHanded\<rparr>" exampleCollaborators]
  by (simp add: exampleActivity_def exampleItem_def exampleVersatile_def exampleBase_def
      exampleCollaborators_def)

text \<open>
  The statement of the specification fails on the damage types: the versatile
  definition of the sample item has its own type, bludgeoning, and the substituted part
  has the type of the original base part instead.
\<close>

theorem versatileDamage_counterexample:
  "dmg_types (item_damage_versatile (item exampleActivity)) = [''bludgeoning''] \<and>
   dmg_types (versatileDamage exampleCollaborators exampleActivity
       (exampleBase\<lparr>dmg_base := True\<rparr>) \<lparr>cfg_mode = Some twoHanded\<rparr>) = [''slashing'']"
  by (simp add: versatileDamage_def Let_def exampleActivity_def exampleItem_def
      exampleVersatile_def exampleBase_def)

section \<open>The resolved ability\<close>

text \<open>
  The modifier that the \<^verbatim>\<open>reduce\<close> of the ability getter compares:
  \<^verbatim>\<open>abilities[k]?.mod ?? -Infinity\<close>, with the empty object for an absent actor.
\<close>

lemma foldl_largerAbility:
  fixes abilities :: "string \<Rightarrow> int option"
  defines "f \<equiv> \<lambda>k. orNegInfinity (abilities k)"
  shows "(f (foldl (largerAbility abilities) l xs) = f l \<longrightarrow> foldl (largerAbility abilities) l xs = l) \<and>
         f l \<le> f (foldl (largerAbility abilities) l xs) \<and>
         (\<forall>y\<in>set xs. f y \<le> f (foldl (largerAbility abilities) l xs)) \<and>
         (foldl (largerAbility abilities) l xs = l \<or> foldl (largerAbility abilities) l xs \<in> set xs) \<and>
         (f l < f (foldl (largerAbility abilities) l xs) \<longrightarrow>
            (\<forall>y\<in>set (takeWhile (\<lambda>y. y \<noteq> foldl (largerAbility abilities) l xs) xs).
                f y < f (foldl (largerAbility abilities) l xs)))"
proof (induction xs arbitrary: l)
  case Nil
  show ?case by simp
next
  case (Cons x xs)
  show ?case
  proof (cases "f l < f x")
    case True
    define r where "r = foldl (largerAbility abilities) x xs"
    have step: "foldl (largerAbility abilities) l (x # xs) = r"
      using True by (simp add: largerAbility_def f_def r_def)
    have i1: "f r = f x \<longrightarrow> r = x" and i2: "f x \<le> f r"
      and i3: "\<forall>y\<in>set xs. f y \<le> f r" and i4: "r = x \<or> r \<in> set xs"
      and i5: "f x < f r \<longrightarrow> (\<forall>y\<in>set (takeWhile (\<lambda>y. y \<noteq> r) xs). f y < f r)"
      using Cons.IH [of x] unfolding r_def by blast+
    have lt: "f l < f r" using True i2 by simp
    have c1: "f r = f l \<longrightarrow> r = l" using lt by auto
    have c2: "f l \<le> f r" using lt by (rule less_imp_le)
    have c3: "\<forall>y\<in>set (x # xs). f y \<le> f r" using i2 i3 by simp
    have c4: "r = l \<or> r \<in> set (x # xs)" using i4 by auto
    have c5: "\<forall>y\<in>set (takeWhile (\<lambda>y. y \<noteq> r) (x # xs)). f y < f r"
    proof (cases "x = r")
      case True
      then show ?thesis by simp
    next
      case False
      with i1 i2 have "f x < f r" by (auto simp: less_le)
      with i5 False show ?thesis by simp
    qed
    show ?thesis unfolding step using c1 c2 c3 c4 c5 by blast
  next
    case False
    define r where "r = foldl (largerAbility abilities) l xs"
    have step: "foldl (largerAbility abilities) l (x # xs) = r"
      using False by (simp add: largerAbility_def f_def r_def)
    have i1: "f r = f l \<longrightarrow> r = l" and i2: "f l \<le> f r"
      and i3: "\<forall>y\<in>set xs. f y \<le> f r" and i4: "r = l \<or> r \<in> set xs"
      and i5: "f l < f r \<longrightarrow> (\<forall>y\<in>set (takeWhile (\<lambda>y. y \<noteq> r) xs). f y < f r)"
      using Cons.IH [of l] unfolding r_def by blast+
    have xl: "f x \<le> f l" using False by simp
    have c3: "\<forall>y\<in>set (x # xs). f y \<le> f r" using i2 i3 xl by auto
    have c4: "r = l \<or> r \<in> set (x # xs)" using i4 by auto
    have c5: "f l < f r \<longrightarrow> (\<forall>y\<in>set (takeWhile (\<lambda>y. y \<noteq> r) (x # xs)). f y < f r)"
    proof
      assume lt: "f l < f r"
      then have "x \<noteq> r" using xl by auto
      moreover have "f x < f r" using xl lt by simp
      ultimately show "\<forall>y\<in>set (takeWhile (\<lambda>y. y \<noteq> r) (x # xs)). f y < f r"
        using i5 lt by simp
    qed
    show ?thesis unfolding step using i1 i2 c3 c4 c5 by blast
  qed
qed

text \<open>
  The \<^verbatim>\<open>reduce\<close> over a non-empty set that starts from its first element returns the
  first element, in insertion order, whose modifier is the largest.
\<close>

lemma reduce_first_largest:
  fixes abilities :: "string \<Rightarrow> int option"
  assumes r: "r = foldl (largerAbility abilities) x (x # xs)"
  shows "r \<in> set (x # xs)"
    and "\<forall>y\<in>set (x # xs). orNegInfinity (abilities y) \<le> orNegInfinity (abilities r)"
    and "\<forall>y\<in>set (takeWhile (\<lambda>y. y \<noteq> r) (x # xs)).
           orNegInfinity (abilities y) < orNegInfinity (abilities r)"
proof -
  have r': "foldl (largerAbility abilities) x xs = r"
    by (simp add: r largerAbility_def)
  note inv = foldl_largerAbility [of abilities x xs, unfolded r']
  show "r \<in> set (x # xs)" using inv by auto
  show "\<forall>y\<in>set (x # xs). orNegInfinity (abilities y) \<le> orNegInfinity (abilities r)"
    using inv by auto
  show "\<forall>y\<in>set (takeWhile (\<lambda>y. y \<noteq> r) (x # xs)).
          orNegInfinity (abilities y) < orNegInfinity (abilities r)"
  proof (cases "r = x")
    case True
    then show ?thesis by simp
  next
    case False
    with inv have "orNegInfinity (abilities x) < orNegInfinity (abilities r)"
      by (auto simp: less_le)
    with inv False show ?thesis by auto
  qed
qed

lemma reduce_no_modifiers:
  "foldl (largerAbility (\<lambda>k. None)) x xs = x"
  by (induction xs) (simp_all add: largerAbility_def)

text \<open>
  C7, as the code has it. The ability getter returns \<^verbatim>\<open>null\<close> (here \<open>None\<close>) when the set
  of available abilities is empty, and the only element of a set of one. For a larger set
  without an actor it returns the first element in insertion order; with an actor it
  returns an element whose modifier on the actor is the largest (an ability without a
  modifier counts as minus infinity), and every element that comes before it in
  insertion order has a strictly smaller modifier: of several largest, the first wins.
\<close>

theorem ability_resolved:
  "(availableAbilities config a = [] \<longrightarrow> ability config a = None) \<and>
   (availableAbilities config a = [x] \<longrightarrow> ability config a = Some x) \<and>
   (2 \<le> length (availableAbilities config a) \<and> actor a = None \<longrightarrow>
      ability config a = Some (hd (availableAbilities config a))) \<and>
   (2 \<le> length (availableAbilities config a) \<and> actor a = Some ac \<longrightarrow>
      (\<exists>r. ability config a = Some r \<and> r \<in> set (availableAbilities config a) \<and>
           (\<forall>y\<in>set (availableAbilities config a).
               orNegInfinity (actor_abilities ac y) \<le> orNegInfinity (actor_abilities ac r)) \<and>
           (\<forall>y\<in>set (takeWhile (\<lambda>y. y \<noteq> r) (availableAbilities config a)).
               orNegInfinity (actor_abilities ac y) < orNegInfinity (actor_abilities ac r))))"
proof (intro conjI impI)
  assume "availableAbilities config a = []"
  then show "ability config a = None"
    by (simp add: ability_def)
next
  assume "availableAbilities config a = [x]"
  then show "ability config a = Some x"
    by (simp add: ability_def)
next
  assume h: "2 \<le> length (availableAbilities config a) \<and> actor a = None"
  then obtain x y zs where av: "availableAbilities config a = x # y # zs"
    by (auto simp: numeral_2_eq_2 Suc_le_length_iff)
  show "ability config a = Some (hd (availableAbilities config a))"
    using h by (simp add: ability_def av reduce_no_modifiers largerAbility_def)
next
  assume h: "2 \<le> length (availableAbilities config a) \<and> actor a = Some ac"
  then obtain x y zs where av: "availableAbilities config a = x # y # zs"
    by (auto simp: numeral_2_eq_2 Suc_le_length_iff)
  define r where "r = foldl (largerAbility (actor_abilities ac)) x (x # y # zs)"
  have res: "ability config a = Some r"
    using h by (simp add: ability_def av r_def Let_def)
  from reduce_first_largest [OF r_def] res
  show "\<exists>r. ability config a = Some r \<and> r \<in> set (availableAbilities config a) \<and>
           (\<forall>y\<in>set (availableAbilities config a).
               orNegInfinity (actor_abilities ac y) \<le> orNegInfinity (actor_abilities ac r)) \<and>
           (\<forall>y\<in>set (takeWhile (\<lambda>y. y \<noteq> r) (availableAbilities config a)).
               orNegInfinity (actor_abilities ac y) < orNegInfinity (actor_abilities ac r))"
    unfolding av by blast
qed

theorem ability_resolved_witness:
  "availableAbilities exampleConfig (withAbilities [] exampleActivity) = [] \<and>
   ability exampleConfig (withAbilities [] exampleActivity) = None \<and>
   availableAbilities exampleConfig exampleActivity = [''str''] \<and>
   ability exampleConfig exampleActivity = Some ''str'' \<and>
   2 \<le> length (availableAbilities exampleConfig
           (withAbilities [''dex'', ''str''] (exampleActivity\<lparr>actor := None\<rparr>))) \<and>
   actor (withAbilities [''dex'', ''str''] (exampleActivity\<lparr>actor := None\<rparr>)) = None \<and>
   ability exampleConfig (withAbilities [''dex'', ''str''] (exampleActivity\<lparr>actor := None\<rparr>)) =
     Some ''dex'' \<and>
   2 \<le> length (availableAbilities exampleConfig
           (withAbilities [''con'', ''dex'', ''str''] exampleActivity)) \<and>
   actor (withAbilities [''con'', ''dex'', ''str''] exampleActivity) = Some exampleActor \<and>
   ability exampleConfig (withAbilities [''con'', ''dex'', ''str''] exampleActivity) = Some ''dex''"
proof -
  have av: "\<And>s a. availableAbilities exampleConfig (withAbilities s a) = s"
    by (simp add: availableAbilities_def withAbilities_def)
  have av1: "availableAbilities exampleConfig exampleActivity = [''str'']"
    by (simp add: availableAbilities_def exampleActivity_def exampleItem_def exampleActor_def
        exampleConfig_def newSet_def setAdd_def)
  have ac3: "actor (withAbilities [''dex'', ''str''] (exampleActivity\<lparr>actor := None\<rparr>)) = None"
    by (simp add: withAbilities_def)
  have ac4: "actor (withAbilities [''con'', ''dex'', ''str''] exampleActivity) = Some exampleActor"
    by (simp add: withAbilities_def exampleActivity_def)
  have r4: "ability exampleConfig (withAbilities [''con'', ''dex'', ''str''] exampleActivity) =
      Some ''dex''"
    by (simp add: ability_def av ac4 Let_def largerAbility_def exampleActor_def)
  show ?thesis
    using ability_resolved [of exampleConfig "withAbilities [] exampleActivity"]
      ability_resolved [of exampleConfig exampleActivity "''str''"]
      ability_resolved [of exampleConfig
        "withAbilities [''dex'', ''str''] (exampleActivity\<lparr>actor := None\<rparr>)"]
      ability_resolved [of exampleConfig "withAbilities [''con'', ''dex'', ''str''] exampleActivity"
        _ exampleActor]
      av av1 ac3 ac4 r4
    by simp
qed

text \<open>
  The statement of the specification fails on the empty set: the getter returns \<^verbatim>\<open>null\<close>, which is not
  the string \<^verbatim>\<open>"none"\<close> that \<^verbatim>\<open>getAttackData\<close> compares \<^verbatim>\<open>attack.ability\<close> with.
\<close>

theorem ability_counterexample:
  "availableAbilities exampleConfig (withAbilities [] exampleActivity) = [] \<and>
   ability exampleConfig (withAbilities [] exampleActivity) \<noteq> Some ''none''"
  by (simp add: ability_def availableAbilities_def withAbilities_def)

section \<open>The attack roll with an actor\<close>

text \<open>
  C8, as the code has it. With an actor and \<^verbatim>\<open>attack.flat = false\<close>, the term list is, in
  this order: \<^verbatim>\<open>@mod\<close> exactly when the activity's field \<^verbatim>\<open>attack.ability\<close> is not the
  string \<^verbatim>\<open>"none"\<close>; \<^verbatim>\<open>@prof\<close> exactly when the item reports proficiency, and then
  \<^verbatim>\<open>data.prof\<close> is the item's proficiency term; the actor's attack bonus for the
  activity's action type exactly when the actor has a non-empty one; the activity's own
  bonus when non-empty; the item's magical bonus when truthy and available.
\<close>

theorem getAttackData_actor_not_flat:
  "actor a = Some ac \<Longrightarrow> \<not> attack_flat a \<Longrightarrow>
   snd (getAttackData ext a) =
     (if attack_ability a \<noteq> ''none'' then [JStr ''@mod''] else []) @
     (case item_prof (item a) of
        None \<Rightarrow> []
      | Some p \<Rightarrow> if prof_hasProficiency p then [JStr ''@prof''] else []) @
     (case actor_bonuses ac (actionType a) of
        None \<Rightarrow> []
      | Some b \<Rightarrow> if b \<noteq> [] then [JStr b] else []) @
     (if attack_bonus a \<noteq> [] then [JStr (attack_bonus a)] else []) @
     (if truthy (item_magicalBonus (item a)) \<and> item_magicAvailable (item a)
      then [item_magicalBonus (item a)] else []) \<and>
   fst (getAttackData ext a) =
     (case item_prof (item a) of
        None \<Rightarrow> getRollData ext a False
      | Some p \<Rightarrow>
          if prof_hasProficiency p
          then (getRollData ext a False)\<lparr>rd_prof := Some (prof_term p)\<rparr>
          else getRollData ext a False)"
  by (cases "item_prof (item a)"; cases "actor_bonuses ac (actionType a)")
     (simp_all add: getAttackData_def Let_def)

theorem getAttackData_actor_not_flat_witness:
  "actor exampleActivity = Some exampleActor \<and> \<not> attack_flat exampleActivity \<and>
   snd (getAttackData exampleCollaborators exampleActivity) =
     [JStr ''@mod'', JStr ''@prof'', JStr ''+1'', JStr ''+0'', JNum 1] \<and>
   fst (getAttackData exampleCollaborators exampleActivity) =
     exampleRollData\<lparr>rd_prof := Some (JStr ''+2'')\<rparr>"
  using getAttackData_actor_not_flat [of exampleActivity exampleActor exampleCollaborators]
  by (simp add: exampleActivity_def exampleItem_def exampleActor_def exampleCollaborators_def
      actionType_def)

text \<open>
  The statement of the specification fails in both directions. An attack whose \<^verbatim>\<open>attack.ability\<close> is
  \<^verbatim>\<open>"none"\<close> on an item that offers strength resolves to strength and has no \<^verbatim>\<open>@mod\<close>
  term; an attack on an item that offers no ability resolves to no ability and has one.
\<close>

theorem getAttackData_counterexample:
  "actor (withAbilities [''str''] (exampleActivity\<lparr>attack_ability := ''none''\<rparr>)) =
     Some exampleActor \<and>
   \<not> attack_flat (withAbilities [''str''] (exampleActivity\<lparr>attack_ability := ''none''\<rparr>)) \<and>
   ability exampleConfig (withAbilities [''str''] (exampleActivity\<lparr>attack_ability := ''none''\<rparr>)) =
     Some ''str'' \<and>
   snd (getAttackData exampleCollaborators
         (withAbilities [''str''] (exampleActivity\<lparr>attack_ability := ''none''\<rparr>))) =
     [JStr ''@prof'', JStr ''+1'', JStr ''+0'', JNum 1] \<and>
   ability exampleConfig (withAbilities [] exampleActivity) = None \<and>
   snd (getAttackData exampleCollaborators (withAbilities [] exampleActivity)) =
     [JStr ''@mod'', JStr ''@prof'', JStr ''+1'', JStr ''+0'', JNum 1]"
  by (simp add: ability_def availableAbilities_def getAttackData_def Let_def actionType_def
      withAbilities_def exampleActivity_def exampleItem_def exampleActor_def
      exampleCollaborators_def)

end
